theory Spec2Isabelle
  imports Main "HOL-Library.Sublist"
begin

section \<open>Research assistant workflow (src/app.py)\<close>

text \<open>
  The program is a four-node workflow graph (planner, searcher, analyzer, reporter) over a
  shared state dictionary \<open>AgentState\<close>. The node functions, the graph wiring and the entry
  point \<open>research\<close> are in src/app.py and are translated from there. The graph engine itself
  (channel reducers, the executor behind \<open>workflow.invoke\<close>, the in-memory checkpointer) is
  the LangGraph library, which is not part of the source tree; those parts are modelled from
  the specification and marked as such.

  A Python \<open>str\<close> is the list of its characters, each character its Unicode code point.
  A raised exception is the left injection of a sum, carrying the text of \<open>str(e)\<close>.
\<close>

subsection \<open>Data model\<close>

type_synonym pystr = "nat list"

text \<open>A literal of the source, all of whose characters are below U+0100.\<close>

definition lit :: "string \<Rightarrow> pystr" where
  "lit s = map of_char s"

type_synonym exn = pystr

text \<open>
  A Python value as it may sit under a key of a raw search result: a str, \<open>None\<close>, a bool,
  an int, a float (named by its \<open>repr\<close>), a list or a dict.
\<close>

datatype pyval =
  PStr pystr
| PNone
| PBool bool
| PInt int
| PFloat pystr
| PList "pyval list"
| PDict "(pystr \<times> pyval) list"

datatype message = SystemMessage pystr | HumanMessage pystr | AIMessage pystr

fun msg_content :: "message \<Rightarrow> pystr" where
  "msg_content (SystemMessage c) = c"
| "msg_content (HumanMessage c) = c"
| "msg_content (AIMessage c) = c"

fun is_human :: "message \<Rightarrow> bool" where
  "is_human (HumanMessage c) = True"
| "is_human m = False"

text \<open>
  An entry of the formatted search results: the dictionary with keys title, content, url.
  The values are whatever the raw result held under these keys.
\<close>

record search_result =
  title :: pyval
  content :: pyval
  url :: pyval

text \<open>
  An element of what the search tool returns: a dictionary from keys to values, or any value
  that is not a dictionary.
\<close>

datatype raw_result = RawDict "pystr \<rightharpoonup> pyval" | RawNonDict

text \<open>
  The \<open>analysis\<close> dictionary: \<open>{}\<close>, or the four entries built by
  \<open>analyze_research_content\<close>.
\<close>

datatype analysis =
  EmptyAnalysis
| Analysis (topic: pystr) (content_length: nat) (key_points: "pystr list")
    (analysis_timestamp: pystr)

text \<open>\<open>class AgentState(TypedDict)\<close>.\<close>

record agent_state =
  messages :: "message list"
  research_query :: pystr
  search_results :: "search_result list"
  analysis :: analysis
  final_report :: pystr

text \<open>
  What a node returns: a dictionary holding some of the keys of \<open>AgentState\<close>.
  \<open>None\<close> is an absent key.
\<close>

record partial =
  p_messages :: "message list option"
  p_research_query :: "pystr option"
  p_search_results :: "search_result list option"
  p_analysis :: "analysis option"
  p_final_report :: "pystr option"

text \<open>
  The external world of one call of \<open>research\<close>: the two remote capabilities, which may
  raise, the clock readings, and the library and interpreter functions whose output the
  nodes pass on without looking at it: \<open>json.dumps\<close>, the formatting of the prompt
  template, \<open>str(v)\<close> of a value that is not a str, and the text of the exception that
  slicing a value raises when the value cannot be sliced.
\<close>

record env =
  llm :: "message list \<Rightarrow> exn + message"
  search_tool :: "pystr \<Rightarrow> exn + raw_result list"
  json_dumps :: "analysis \<Rightarrow> pystr"
  chat_prompt_format :: "pystr \<Rightarrow> (pystr \<times> pystr) list \<Rightarrow> pystr"
  py_str :: "pyval \<Rightarrow> pystr"
  subscript_error :: "pyval \<Rightarrow> exn"
  now_isoformat :: pystr
  now_timestamp :: pystr

text \<open>A call of a remote capability, as recorded in the order the calls are made.\<close>

datatype call = LlmInvoke "message list" | SearchInvoke pystr

type_synonym handler = "agent_state \<Rightarrow> (exn + partial) \<times> call list"

subsection \<open>State model: channels and merge\<close>

datatype channel = Messages | ResearchQuery | SearchResults | AnalysisChannel | FinalReport

datatype reducer = AddMessages | LastValue

text \<open>
  The annotations of \<open>AgentState\<close> (src/app.py, lines 62 to 67): \<open>messages\<close> is
  \<open>Annotated[list, add_messages]\<close>, the other four keys carry no reducer.
\<close>

definition channels :: "(channel \<times> reducer) list" where
  "channels =
     [(Messages, AddMessages),
      (ResearchQuery, LastValue),
      (SearchResults, LastValue),
      (AnalysisChannel, LastValue),
      (FinalReport, LastValue)]"

text \<open>
  Modelled from the spec: the reducer \<open>add_messages\<close> of the graph library is not in the
  source tree. The specification gives it as appending: new entries are concatenated to the
  end, never replacing prior ones.
\<close>

definition add_messages :: "message list \<Rightarrow> message list \<Rightarrow> message list" where
  "add_messages left right = left @ right"

text \<open>
  Modelled from the spec: how the graph library applies a node's partial update to a channel.
  A key that is present is combined by the channel's reducer, an absent key leaves the
  channel as it is.
\<close>

fun update_channel :: "('a \<Rightarrow> 'a \<Rightarrow> 'a) \<Rightarrow> 'a \<Rightarrow> 'a option \<Rightarrow> 'a" where
  "update_channel f cur None = cur"
| "update_channel f cur (Some new) = f cur new"

definition last_value :: "'a \<Rightarrow> 'a \<Rightarrow> 'a" where
  "last_value cur new = new"

fun messages_reducer :: "reducer \<Rightarrow> message list \<Rightarrow> message list \<Rightarrow> message list" where
  "messages_reducer AddMessages = add_messages"
| "messages_reducer LastValue = last_value"

definition reducer_of :: "channel \<Rightarrow> reducer" where
  "reducer_of c = (case map_of channels c of Some r \<Rightarrow> r | None \<Rightarrow> LastValue)"

definition merge :: "agent_state \<Rightarrow> partial \<Rightarrow> agent_state" where
  "merge current p =
     \<lparr>messages = update_channel (messages_reducer (reducer_of Messages))
                   (messages current) (p_messages p),
      research_query = update_channel last_value (research_query current) (p_research_query p),
      search_results = update_channel last_value (search_results current) (p_search_results p),
      analysis = update_channel last_value (analysis current) (p_analysis p),
      final_report = update_channel last_value (final_report current) (p_final_report p)\<rparr>"

subsection \<open>Text helpers\<close>

definition nl :: pystr where
  "nl = [10]"

text \<open>\<open>sep.join(xs)\<close>.\<close>

fun join :: "pystr \<Rightarrow> pystr list \<Rightarrow> pystr" where
  "join sep [] = []"
| "join sep [x] = x"
| "join sep (x # y # ys) = x @ sep @ join sep (y # ys)"

text \<open>\<open>str(n)\<close> for a length, as an f-string formats it.\<close>

fun str_nat :: "nat \<Rightarrow> pystr" where
  "str_nat n =
     (if n < 10 then [48 + n]
      else str_nat (n div 10) @ [48 + n mod 10])"

declare str_nat.simps [simp del]

text \<open>\<open>s.split(sep)\<close> for a separator of one character.\<close>

fun split_on :: "nat \<Rightarrow> pystr \<Rightarrow> pystr list" where
  "split_on sep [] = [[]]"
| "split_on sep (c # cs) =
     (if c = sep then [] # split_on sep cs
      else (case split_on sep cs of [] \<Rightarrow> [[c]] | l # ls \<Rightarrow> (c # l) # ls))"

text \<open>
  The characters that \<open>str.strip()\<close> removes: U+0009 to U+000D, U+001C to U+0020, U+0085,
  U+00A0, U+1680, U+2000 to U+200A, U+2028, U+2029, U+202F, U+205F and U+3000.
\<close>

definition is_space :: "nat \<Rightarrow> bool" where
  "is_space c =
     ((9 \<le> c \<and> c \<le> 13) \<or> (28 \<le> c \<and> c \<le> 32) \<or> c = 0x85 \<or> c = 0xA0 \<or> c = 0x1680
      \<or> (0x2000 \<le> c \<and> c \<le> 0x200A) \<or> c = 0x2028 \<or> c = 0x2029 \<or> c = 0x202F
      \<or> c = 0x205F \<or> c = 0x3000)"

text \<open>\<open>s.strip()\<close>.\<close>

definition strip :: "pystr \<Rightarrow> pystr" where
  "strip s = rev (dropWhile is_space (rev (dropWhile is_space s)))"

text \<open>\<open>d.get(k, dflt)\<close>.\<close>

definition dict_get :: "('k \<rightharpoonup> 'v) \<Rightarrow> 'k \<Rightarrow> 'v \<Rightarrow> 'v" where
  "dict_get d k dflt = (case d k of None \<Rightarrow> dflt | Some v \<Rightarrow> v)"

text \<open>A value inside an f-string: a str is itself, anything else is its \<open>str(v)\<close>.\<close>

fun format_value :: "env \<Rightarrow> pyval \<Rightarrow> pystr" where
  "format_value self (PStr s) = s"
| "format_value self v = py_str self v"

text \<open>\<open>v[:n]\<close>: a str and a list are cut, any other value raises.\<close>

fun slice_upto :: "env \<Rightarrow> nat \<Rightarrow> pyval \<Rightarrow> exn + pyval" where
  "slice_upto self n (PStr s) = Inr (PStr (take n s))"
| "slice_upto self n (PList xs) = Inr (PList (take n xs))"
| "slice_upto self n v = Inl (subscript_error self v)"

subsection \<open>The analysis tool\<close>

text \<open>\<open>analyze_research_content\<close> (src/app.py, lines 45 to 59).\<close>

definition analyze_research_content :: "env \<Rightarrow> pystr \<Rightarrow> pystr \<Rightarrow> analysis" where
  "analyze_research_content self content' topic' =
     (let lines = split_on 10 content';
          key_points' = [strip line. line \<leftarrow> lines, strip line \<noteq> [] \<and> length (strip line) > 50]
      in Analysis topic' (length content') (take 5 key_points') (now_isoformat self))"

subsection \<open>The nodes\<close>

definition planner_system_prompt :: pystr where
  "planner_system_prompt =
     nl @ (lit ''            You are a research planning assistant. Analyze the user's request and create a research plan.'')
     @ nl @ (lit ''            Break down complex topics into specific, searchable queries.'')
     @ nl @ (lit ''            Respond with a clear research strategy.'')
     @ nl @ (lit ''            '')"

text \<open>\<open>next((msg.content for msg in messages if isinstance(msg, HumanMessage)), "")\<close>.\<close>

definition first_human_content :: "message list \<Rightarrow> pystr" where
  "first_human_content ms = (case find is_human ms of None \<Rightarrow> [] | Some m \<Rightarrow> msg_content m)"

text \<open>\<open>research_planner\<close> (lines 96 to 113).\<close>

definition research_planner :: "env \<Rightarrow> handler" where
  "research_planner self state =
     (let messages' = messages state;
          system_message = SystemMessage planner_system_prompt;
          request = [system_message] @ messages'
      in (case llm self request of
            Inl e \<Rightarrow> Inl e
          | Inr response \<Rightarrow>
              (let user_message = first_human_content messages'
               in Inr \<lparr>p_messages = Some [response],
                        p_research_query = Some user_message,
                        p_search_results = None,
                        p_analysis = None,
                        p_final_report = None\<rparr>),
          [LlmInvoke request]))"

text \<open>
  The loop of \<open>web_searcher\<close> that formats the raw results (lines 123 to 130); the first
  argument is \<open>formatted_results\<close> as built so far.
\<close>

fun format_loop :: "search_result list \<Rightarrow> raw_result list \<Rightarrow> search_result list" where
  "format_loop formatted_results [] = formatted_results"
| "format_loop formatted_results (RawDict result # rest) =
     format_loop
       (formatted_results @
          [\<lparr>title = dict_get result (lit ''title'') (PStr []),
            content = dict_get result (lit ''content'') (PStr []),
            url = dict_get result (lit ''url'') (PStr [])\<rparr>])
       rest"
| "format_loop formatted_results (RawNonDict # rest) = format_loop formatted_results rest"

text \<open>\<open>web_searcher\<close> (lines 115 to 143). The \<open>except Exception\<close> branch is the second case.\<close>

definition web_searcher :: "env \<Rightarrow> handler" where
  "web_searcher self state =
     (let query = research_query state
      in (case search_tool self query of
            Inr raw \<Rightarrow>
              (let formatted_results = format_loop [] raw;
                   search_summary =
                     (lit ''Found '') @ str_nat (length formatted_results)
                       @ (lit '' relevant sources for: '') @ query
               in Inr \<lparr>p_messages = Some [AIMessage search_summary],
                        p_research_query = None,
                        p_search_results = Some formatted_results,
                        p_analysis = None,
                        p_final_report = None\<rparr>)
          | Inl e \<Rightarrow>
              Inr \<lparr>p_messages = Some [AIMessage (lit ''Search error: '' @ e)],
                   p_research_query = None,
                   p_search_results = Some [],
                   p_analysis = None,
                   p_final_report = None\<rparr>,
          [SearchInvoke query]))"

text \<open>\<open>content_analyzer\<close> (lines 145 to 171).\<close>

definition content_analyzer :: "env \<Rightarrow> handler" where
  "content_analyzer self state =
     (let search_results' = search_results state;
          query = research_query state
      in if search_results' = [] then
           (Inr \<lparr>p_messages = Some [AIMessage (lit ''No search results to analyze.'')],
                 p_research_query = None,
                 p_search_results = None,
                 p_analysis = Some EmptyAnalysis,
                 p_final_report = None\<rparr>, [])
         else
           (let combined_content =
                  join (nl @ nl)
                    (map (\<lambda>result. (lit ''Title: '') @ format_value self (title result) @ nl
                            @ (lit ''Content: '') @ format_value self (content result))
                       search_results');
                analysis_result = analyze_research_content self combined_content query
            in (Inr \<lparr>p_messages = Some [AIMessage (lit ''Content analysis completed.'')],
                      p_research_query = None,
                      p_search_results = None,
                      p_analysis = Some analysis_result,
                      p_final_report = None\<rparr>, [])))"

definition report_template :: pystr where
  "report_template =
     nl @ (lit ''            Based on the research query '') @ [0x22] @ (lit ''{query}'') @ [0x22]
        @ (lit '' and the following information, create a comprehensive research report:'')
     @ nl @ (lit ''            '')
     @ nl @ (lit ''            Search Results Summary:'')
     @ nl @ (lit ''            {search_summary}'')
     @ nl @ (lit ''            '')
     @ nl @ (lit ''            Analysis Results:'')
     @ nl @ (lit ''            {analysis}'')
     @ nl @ (lit ''            '')
     @ nl @ (lit ''            Please provide:'')
     @ nl @ (lit ''            1. Executive Summary'')
     @ nl @ (lit ''            2. Key Findings (with bullet points)'')
     @ nl @ (lit ''            3. Detailed Analysis'')
     @ nl @ (lit ''            4. Sources Used'')
     @ nl @ (lit ''            5. Recommendations'')
     @ nl @ (lit ''            '')
     @ nl @ (lit ''            Format the report in a clear, professional manner with proper sections.'')
     @ nl @ (lit ''            '')"

text \<open>The bullet character U+2022 that starts each summary line.\<close>

definition bullet :: pystr where
  "bullet = [0x2022]"

text \<open>One line of the summary (line 201): the title, then the first 200 of the content.\<close>

definition summary_line :: "env \<Rightarrow> search_result \<Rightarrow> exn + pystr" where
  "summary_line self result =
     (case slice_upto self 200 (content result) of
        Inl e \<Rightarrow> Inl e
      | Inr c \<Rightarrow>
          Inr (bullet @ (lit '' '') @ format_value self (title result) @ (lit '': '')
                 @ format_value self c @ (lit ''...'')))"

text \<open>The list comprehension of lines 200 to 203: the first line that raises ends it.\<close>

fun summary_lines :: "env \<Rightarrow> search_result list \<Rightarrow> exn + pystr list" where
  "summary_lines self [] = Inr []"
| "summary_lines self (result # rest) =
     (case summary_line self result of
        Inl e \<Rightarrow> Inl e
      | Inr l \<Rightarrow>
          (case summary_lines self rest of
             Inl e \<Rightarrow> Inl e
           | Inr ls \<Rightarrow> Inr (l # ls)))"

text \<open>The summary of the top three results (lines 200 to 203).\<close>

definition search_summary_of :: "env \<Rightarrow> search_result list \<Rightarrow> exn + pystr" where
  "search_summary_of self rs =
     (case summary_lines self (take 3 rs) of
        Inl e \<Rightarrow> Inl e
      | Inr ls \<Rightarrow> Inr (join nl ls))"

text \<open>The prompt handed to the model (lines 199 to 212).\<close>

definition formatted_prompt :: "env \<Rightarrow> agent_state \<Rightarrow> exn + pystr" where
  "formatted_prompt self state =
     (let search_results' = search_results state;
          analysis' = analysis state;
          query = research_query state
      in (case search_summary_of self search_results' of
            Inl e \<Rightarrow> Inl e
          | Inr search_summary \<Rightarrow>
              (let analysis_text = json_dumps self analysis'
               in Inr (chat_prompt_format self report_template
                    [(lit ''query'', query), (lit ''search_summary'', search_summary),
                     (lit ''analysis'', analysis_text)]))))"

text \<open>
  \<open>report_generator\<close> (lines 173 to 219). When the summary raises, the model is not called.
\<close>

definition report_generator :: "env \<Rightarrow> handler" where
  "report_generator self state =
     (case formatted_prompt self state of
        Inl e \<Rightarrow> (Inl e, [])
      | Inr prompt \<Rightarrow>
          (let request = [HumanMessage prompt]
           in (case llm self request of
                 Inl e \<Rightarrow> Inl e
               | Inr report_response \<Rightarrow>
                   Inr \<lparr>p_messages = Some [report_response],
                        p_research_query = None,
                        p_search_results = None,
                        p_analysis = None,
                        p_final_report = Some (msg_content report_response)\<rparr>,
               [LlmInvoke request])))"

subsection \<open>The workflow graph\<close>

datatype node = START | Node pystr | END

record compiled_graph =
  nodes :: "(pystr \<times> handler) list"
  edges :: "(node \<times> node) list"

text \<open>\<open>_create_workflow\<close>: the nodes and edges as added in lines 225 to 235.\<close>

definition create_workflow :: "env \<Rightarrow> compiled_graph" where
  "create_workflow self =
     \<lparr>nodes =
        [(lit ''planner'', research_planner self),
         (lit ''searcher'', web_searcher self),
         (lit ''analyzer'', content_analyzer self),
         (lit ''reporter'', report_generator self)],
      edges =
        [(START, Node (lit ''planner'')),
         (Node (lit ''planner''), Node (lit ''searcher'')),
         (Node (lit ''searcher''), Node (lit ''analyzer'')),
         (Node (lit ''analyzer''), Node (lit ''reporter'')),
         (Node (lit ''reporter''), END)]\<rparr>"

definition workflow_order :: "pystr list" where
  "workflow_order = [(lit ''planner''), (lit ''searcher''), (lit ''analyzer''), (lit ''reporter'')]"

subsection \<open>Checkpoint store and executor\<close>

record checkpoint =
  cp_state :: agent_state
  cp_step_index :: nat

type_synonym checkpoint_store = "pystr \<rightharpoonup> checkpoint"

text \<open>
  Modelled from the spec: the in-memory checkpointer (\<open>MemorySaver\<close>) of the graph library is
  not in the source tree. \<open>put\<close> overwrites any prior snapshot of the thread; \<open>get\<close>
  returns the snapshot or \<open>None\<close> for not found.
\<close>

definition put_checkpoint ::
    "checkpoint_store \<Rightarrow> pystr \<Rightarrow> agent_state \<Rightarrow> nat \<Rightarrow> checkpoint_store" where
  "put_checkpoint st thread_id s i = st(thread_id \<mapsto> \<lparr>cp_state = s, cp_step_index = i\<rparr>)"

definition get_checkpoint :: "checkpoint_store \<Rightarrow> pystr \<Rightarrow> checkpoint option" where
  "get_checkpoint st thread_id = st thread_id"

text \<open>
  What a run leaves behind: how it ended (the final state, or the error that was raised out
  of \<open>invoke\<close>), the last committed state, the checkpoint store, the names of the nodes that
  were invoked and the capability calls, both in order.
\<close>

record run =
  outcome :: "exn + agent_state"
  committed :: agent_state
  store :: checkpoint_store
  invoked :: "pystr list"
  calls :: "call list"

definition successor :: "(node \<times> node) list \<Rightarrow> node \<Rightarrow> node option" where
  "successor es n = map_option snd (find (\<lambda>e. fst e = n) es)"

text \<open>
  Modelled from the spec: the executor behind \<open>workflow.invoke\<close> is the graph library's and
  is not in the source tree. From the current node it follows the outgoing edge; at \<open>END\<close>
  the committed state is the result. Otherwise it invokes the handler on the committed
  state; a handler that raises halts the walk with the committed state and the store as they
  are; a partial update is merged, the result is committed and written as the thread's
  checkpoint, and the walk advances. The first argument bounds the number of edges followed.
\<close>

fun walk :: "nat \<Rightarrow> compiled_graph \<Rightarrow> pystr \<Rightarrow> node \<Rightarrow> run \<Rightarrow> run" where
  "walk 0 g thread_id n r = r\<lparr>outcome := Inl (lit ''GraphRecursionError'')\<rparr>"
| "walk (Suc k) g thread_id n r =
     (case successor (edges g) n of
        None \<Rightarrow> r\<lparr>outcome := Inl (lit ''GraphDefinitionError'')\<rparr>
      | Some START \<Rightarrow> r\<lparr>outcome := Inl (lit ''GraphDefinitionError'')\<rparr>
      | Some END \<Rightarrow> r\<lparr>outcome := Inr (committed r)\<rparr>
      | Some (Node name) \<Rightarrow>
          (case map_of (nodes g) name of
             None \<Rightarrow> r\<lparr>outcome := Inl (lit ''GraphDefinitionError'')\<rparr>
           | Some h \<Rightarrow>
               (case h (committed r) of
                  (Inl e, cs) \<Rightarrow>
                    r\<lparr>outcome := Inl e,
                      invoked := invoked r @ [name],
                      calls := calls r @ cs\<rparr>
                | (Inr p, cs) \<Rightarrow>
                    (let s' = merge (committed r) p
                     in walk k g thread_id (Node name)
                          \<lparr>outcome = Inr s',
                            committed = s',
                            store = put_checkpoint (store r) thread_id s'
                                      (Suc (length (invoked r))),
                            invoked = invoked r @ [name],
                            calls = calls r @ cs\<rparr>))))"

text \<open>
  \<open>workflow.invoke(initial_state, config)\<close>: a walk from \<open>START\<close>. A graph that is one path
  from \<open>START\<close> to \<open>END\<close> is walked by following each of its edges once.
\<close>

definition invoke :: "compiled_graph \<Rightarrow> checkpoint_store \<Rightarrow> agent_state \<Rightarrow> pystr \<Rightarrow> run" where
  "invoke g st initial_state thread_id =
     walk (length (edges g)) g thread_id START
       \<lparr>outcome = Inr initial_state,
         committed = initial_state,
         store = st,
         invoked = [],
         calls = []\<rparr>"

subsection \<open>The entry point\<close>

text \<open>
  What \<open>research\<close> returns: the final state dictionary, or the dictionary of the
  \<open>except\<close> branch with exactly the keys error, messages and final_report.
\<close>

datatype research_result =
  FinalState agent_state
| ErrorDict (err_error: pystr) (err_messages: "message list") (err_final_report: pystr)

text \<open>Key lookups on the returned dictionary; \<open>None\<close> is an absent key.\<close>

fun result_error :: "research_result \<Rightarrow> pystr option" where
  "result_error (FinalState s) = None"
| "result_error (ErrorDict e ms r) = Some e"

fun result_search_results :: "research_result \<Rightarrow> search_result list option" where
  "result_search_results (FinalState s) = Some (search_results s)"
| "result_search_results (ErrorDict e ms r) = None"

fun result_analysis :: "research_result \<Rightarrow> analysis option" where
  "result_analysis (FinalState s) = Some (analysis s)"
| "result_analysis (ErrorDict e ms r) = None"

fun result_final_report :: "research_result \<Rightarrow> pystr option" where
  "result_final_report (FinalState s) = Some (final_report s)"
| "result_final_report (ErrorDict e ms r) = Some r"

definition initial_state_of :: "pystr \<Rightarrow> agent_state" where
  "initial_state_of query =
     \<lparr>messages = [HumanMessage query],
      research_query = query,
      search_results = [],
      analysis = EmptyAnalysis,
      final_report = []\<rparr>"

definition thread_id_of :: "env \<Rightarrow> pystr" where
  "thread_id_of self = (lit ''research_'') @ now_timestamp self"

text \<open>The run that \<open>research\<close> starts (lines 243 to 254).\<close>

definition research_run :: "env \<Rightarrow> checkpoint_store \<Rightarrow> pystr \<Rightarrow> run" where
  "research_run self st query =
     invoke (create_workflow self) st (initial_state_of query) (thread_id_of self)"

text \<open>
  \<open>research\<close> (lines 241 to 261), with the checkpointer's contents passed in and out.
\<close>

definition research :: "env \<Rightarrow> checkpoint_store \<Rightarrow> pystr \<Rightarrow> research_result \<times> checkpoint_store" where
  "research self st query =
     (let r = research_run self st query
      in (case outcome r of
            Inr final_state \<Rightarrow> FinalState final_state
          | Inl e \<Rightarrow>
              ErrorDict e [AIMessage (lit ''Research failed: '' @ e)]
                (lit ''Error occurred during research: '' @ e),
          store r))"

subsection \<open>Example worlds\<close>

text \<open>
  Concrete worlds on which the theorems below are run: one where both capabilities answer,
  one where the search raises, one where the search returns values that are not text, one
  where the model answers the planner and raises on the report prompt, and one where the
  model always raises.
\<close>

definition example_raw :: "raw_result list" where
  "example_raw =
     [RawDict [(lit ''title'') \<mapsto> PStr (lit ''T1''), (lit ''content'') \<mapsto> PStr (lit ''C1''),
               (lit ''url'') \<mapsto> PStr (lit ''U1'')],
      RawNonDict,
      RawDict [(lit ''content'') \<mapsto> PStr (lit ''C2'')]]"

definition untyped_raw :: "raw_result list" where
  "untyped_raw = [RawDict [(lit ''title'') \<mapsto> PNone, (lit ''content'') \<mapsto> PInt 5]]"

definition example_env :: env where
  "example_env =
     \<lparr>llm = (\<lambda>request. Inr (AIMessage (lit ''REPORT_X''))),
      search_tool = (\<lambda>query. Inr example_raw),
      json_dumps = (\<lambda>a. (lit ''{}'')),
      chat_prompt_format = (\<lambda>template kwargs. template @ concat (map snd kwargs)),
      py_str = (\<lambda>v. (lit ''None'')),
      subscript_error = (\<lambda>v. (lit ''object is not subscriptable'')),
      now_isoformat = (lit ''2024-01-01T00:00:00''),
      now_timestamp = (lit ''1704067200.0'')\<rparr>"

definition search_down_env :: env where
  "search_down_env = example_env\<lparr>search_tool := (\<lambda>query. Inl (lit ''timeout''))\<rparr>"

definition untyped_env :: env where
  "untyped_env = example_env\<lparr>search_tool := (\<lambda>query. Inr untyped_raw)\<rparr>"

definition report_down_env :: env where
  "report_down_env =
     example_env
       \<lparr>llm := (\<lambda>request. case request of
                   [HumanMessage prompt] \<Rightarrow> Inl (lit ''invalid api key'')
                 | _ \<Rightarrow> Inr (AIMessage (lit ''PLAN''))),
         now_timestamp := (lit ''1704067300.0'')\<rparr>"


definition empty_store :: checkpoint_store where
  "empty_store = Map.empty"

definition example_state :: agent_state where
  "example_state =
     \<lparr>messages = [HumanMessage (lit ''q'')],
      research_query = (lit ''q''),
      search_results =
        [\<lparr>title = PStr (lit ''T0''), content = PStr (lit ''C0''), url = PStr (lit ''U0'')\<rparr>],
      analysis = Analysis (lit ''q'') 2 [] (lit ''2024-01-01T00:00:00''),
      final_report = (lit ''old'')\<rparr>"

definition unsliceable_state :: agent_state where
  "unsliceable_state =
     example_state
       \<lparr>search_results := [\<lparr>title = PStr (lit ''T0''), content = PNone, url = PStr []\<rparr>]\<rparr>"

definition overwrite_update :: partial where
  "overwrite_update =
     \<lparr>p_messages = None, p_research_query = Some (lit ''r''), p_search_results = Some [],
      p_analysis = Some EmptyAnalysis, p_final_report = None\<rparr>"

definition append_update :: partial where
  "append_update =
     \<lparr>p_messages = Some [AIMessage (lit ''a'')], p_research_query = None, p_search_results = None,
      p_analysis = None, p_final_report = None\<rparr>"

subsection \<open>Properties of the state model\<close>

lemma lit_eq_iff: "lit a = lit b \<longleftrightarrow> a = b"
proof -
  have "inj (of_char :: char \<Rightarrow> nat)"
    by (simp add: inj_def)
  then show ?thesis
    by (simp add: lit_def inj_map_eq_map)
qed

lemma lit_append: "lit a @ lit b = lit (a @ b)"
  by (simp add: lit_def)

lemma take_lit: "take n (lit a) = lit (take n a)"
  by (simp add: lit_def take_map)

lemma reducer_of_Messages: "reducer_of Messages = AddMessages"
  by (simp add: reducer_of_def channels_def)

lemma merge_messages:
  "messages (merge s p) = (case p_messages p of None \<Rightarrow> messages s | Some ms \<Rightarrow> messages s @ ms)"
  by (simp add: merge_def reducer_of_Messages add_messages_def split: option.split)

lemma merge_research_query:
  "research_query (merge s p) =
     (case p_research_query p of None \<Rightarrow> research_query s | Some q \<Rightarrow> q)"
  by (simp add: merge_def last_value_def split: option.split)

lemma merge_search_results:
  "search_results (merge s p) =
     (case p_search_results p of None \<Rightarrow> search_results s | Some r \<Rightarrow> r)"
  by (simp add: merge_def last_value_def split: option.split)

lemma merge_analysis:
  "analysis (merge s p) = (case p_analysis p of None \<Rightarrow> analysis s | Some a \<Rightarrow> a)"
  by (simp add: merge_def last_value_def split: option.split)

lemma merge_final_report:
  "final_report (merge s p) = (case p_final_report p of None \<Rightarrow> final_report s | Some r \<Rightarrow> r)"
  by (simp add: merge_def last_value_def split: option.split)

lemmas merge_fields =
  merge_messages merge_research_query merge_search_results merge_analysis merge_final_report

text \<open>
  C6. For every state \<open>s\<close> and every partial update \<open>p\<close> that touches only the messages
  key, the merged messages have length \<open>len(s.messages) + len(p.messages)\<close>, and their
  first \<open>len(s.messages)\<close> entries are the messages of \<open>s\<close>, unchanged.
\<close>

theorem merge_append_length_prefix:
  assumes "p_messages p = Some ms"
    and "p_research_query p = None" and "p_search_results p = None"
    and "p_analysis p = None" and "p_final_report p = None"
  shows "length (messages (merge s p)) = length (messages s) + length ms
    \<and> take (length (messages s)) (messages (merge s p)) = messages s"
  using assms by (simp add: merge_messages)

theorem merge_append_length_prefix_witness:
  "length (messages (merge
      \<lparr>messages = [HumanMessage (lit ''q'')], research_query = (lit ''q''), search_results = [],
        analysis = EmptyAnalysis, final_report = []\<rparr>
      \<lparr>p_messages = Some [AIMessage (lit ''a''), AIMessage (lit ''b'')], p_research_query = None,
        p_search_results = None, p_analysis = None, p_final_report = None\<rparr>)) = 3
   \<and> take 1 (messages (merge
      \<lparr>messages = [HumanMessage (lit ''q'')], research_query = (lit ''q''), search_results = [],
        analysis = EmptyAnalysis, final_report = []\<rparr>
      \<lparr>p_messages = Some [AIMessage (lit ''a''), AIMessage (lit ''b'')], p_research_query = None,
        p_search_results = None, p_analysis = None, p_final_report = None\<rparr>))
     = [HumanMessage (lit ''q'')]"
  using merge_append_length_prefix
    [of "\<lparr>p_messages = Some [AIMessage (lit ''a''), AIMessage (lit ''b'')], p_research_query = None,
          p_search_results = None, p_analysis = None, p_final_report = None\<rparr>"
        "[AIMessage (lit ''a''), AIMessage (lit ''b'')]"
        "\<lparr>messages = [HumanMessage (lit ''q'')], research_query = (lit ''q''), search_results = [],
          analysis = EmptyAnalysis, final_report = []\<rparr>"]
  by simp

subsection \<open>Properties of the nodes\<close>

lemma format_loop_acc: "format_loop acc raw = acc @ format_loop [] raw"
proof (induction raw arbitrary: acc)
  case Nil
  show ?case by simp
next
  case (Cons r rs)
  show ?case
  proof (cases r)
    case (RawDict d)
    show ?thesis
      using Cons.IH [of "acc @ [\<lparr>title = dict_get d (lit ''title'') (PStr []),
                 content = dict_get d (lit ''content'') (PStr []), url = dict_get d (lit ''url'') (PStr [])\<rparr>]"]
            Cons.IH [of "[\<lparr>title = dict_get d (lit ''title'') (PStr []),
                 content = dict_get d (lit ''content'') (PStr []), url = dict_get d (lit ''url'') (PStr [])\<rparr>]"]
      by (simp add: RawDict)
  next
    case RawNonDict
    show ?thesis using Cons.IH [of acc] by (simp add: RawNonDict)
  qed
qed

lemma web_searcher_total:
  "\<exists>p. web_searcher self s = (Inr p, [SearchInvoke (research_query s)])"
  by (simp add: web_searcher_def Let_def split: sum.split)

lemma content_analyzer_total: "\<exists>p. content_analyzer self s = (Inr p, [])"
  by (simp add: content_analyzer_def Let_def)

subsection \<open>Properties of the executor on the workflow\<close>

lemma successor_workflow:
  "successor (edges (create_workflow self)) START = Some (Node (lit ''planner''))"
  "successor (edges (create_workflow self)) (Node (lit ''planner'')) = Some (Node (lit ''searcher''))"
  "successor (edges (create_workflow self)) (Node (lit ''searcher'')) = Some (Node (lit ''analyzer''))"
  "successor (edges (create_workflow self)) (Node (lit ''analyzer'')) = Some (Node (lit ''reporter''))"
  "successor (edges (create_workflow self)) (Node (lit ''reporter'')) = Some END"
  by (simp_all add: successor_def create_workflow_def lit_def)

lemma nodes_workflow:
  "map_of (nodes (create_workflow self)) (lit ''planner'') = Some (research_planner self)"
  "map_of (nodes (create_workflow self)) (lit ''searcher'') = Some (web_searcher self)"
  "map_of (nodes (create_workflow self)) (lit ''analyzer'') = Some (content_analyzer self)"
  "map_of (nodes (create_workflow self)) (lit ''reporter'') = Some (report_generator self)"
  by (simp_all add: create_workflow_def lit_def)

lemma length_edges_workflow:
  "length (edges (create_workflow self)) = Suc (Suc (Suc (Suc (Suc 0))))"
  by (simp add: create_workflow_def)

text \<open>A run whose first node raises: nothing is committed and nothing is stored.\<close>

lemma run_planner_raises:
  assumes "research_planner self s0 = (Inl e, c1)"
  shows "invoke (create_workflow self) st s0 tid =
     \<lparr>outcome = Inl e, committed = s0, store = st, invoked = [(lit ''planner'')], calls = c1\<rparr>"
  using assms
  by (simp add: invoke_def length_edges_workflow successor_workflow nodes_workflow)

text \<open>A run whose first three nodes return: the fourth is invoked on what they committed.\<close>

lemma run_four_steps:
  assumes "research_planner self s0 = (Inr p1, c1)"
    and "web_searcher self (merge s0 p1) = (Inr p2, c2)"
    and "content_analyzer self (merge (merge s0 p1) p2) = (Inr p3, c3)"
    and "report_generator self (merge (merge (merge s0 p1) p2) p3) = (x4, c4)"
  shows "invoke (create_workflow self) st s0 tid =
     (case x4 of
        Inl e \<Rightarrow>
          \<lparr>outcome = Inl e,
            committed = merge (merge (merge s0 p1) p2) p3,
            store = st(tid \<mapsto>
              \<lparr>cp_state = merge (merge (merge s0 p1) p2) p3, cp_step_index = 3\<rparr>),
            invoked = workflow_order,
            calls = c1 @ c2 @ c3 @ c4\<rparr>
      | Inr p4 \<Rightarrow>
          \<lparr>outcome = Inr (merge (merge (merge (merge s0 p1) p2) p3) p4),
            committed = merge (merge (merge (merge s0 p1) p2) p3) p4,
            store = st(tid \<mapsto>
              \<lparr>cp_state = merge (merge (merge (merge s0 p1) p2) p3) p4, cp_step_index = 4\<rparr>),
            invoked = workflow_order,
            calls = c1 @ c2 @ c3 @ c4\<rparr>)"
  using assms
  by (simp add: invoke_def length_edges_workflow successor_workflow nodes_workflow
      workflow_order_def put_checkpoint_def Let_def eval_nat_numeral split: sum.split)

text \<open>
  C2. For every state and partial update, \<open>merge\<close> combines each key that is present by
  the rule registered for its channel: appending at the end for messages, overwriting for
  research_query, search_results, analysis and final_report. An absent key leaves the
  channel unchanged. Every channel has exactly one registered rule.
\<close>
theorem merge_by_rule:
  "messages (merge s p) =
     (case p_messages p of None \<Rightarrow> messages s | Some ms \<Rightarrow> messages s @ ms)
   \<and> research_query (merge s p) =
     (case p_research_query p of None \<Rightarrow> research_query s | Some q \<Rightarrow> q)
   \<and> search_results (merge s p) =
     (case p_search_results p of None \<Rightarrow> search_results s | Some r \<Rightarrow> r)
   \<and> analysis (merge s p) = (case p_analysis p of None \<Rightarrow> analysis s | Some a \<Rightarrow> a)
   \<and> final_report (merge s p) =
     (case p_final_report p of None \<Rightarrow> final_report s | Some r \<Rightarrow> r)
   \<and> length (filter (\<lambda>entry. fst entry = c) channels) = 1
   \<and> map (\<lambda>entry. snd entry) channels = [AddMessages, LastValue, LastValue, LastValue, LastValue]
   \<and> map (\<lambda>entry. fst entry) channels
       = [Messages, ResearchQuery, SearchResults, AnalysisChannel, FinalReport]"
proof -
  have "length (filter (\<lambda>entry. fst entry = c) channels) = 1"
    by (cases c) (simp_all add: channels_def)
  moreover have "map (\<lambda>entry. snd entry) channels
      = [AddMessages, LastValue, LastValue, LastValue, LastValue]"
    by (simp add: channels_def)
  moreover have "map (\<lambda>entry. fst entry) channels
       = [Messages, ResearchQuery, SearchResults, AnalysisChannel, FinalReport]"
    by (simp add: channels_def)
  ultimately show ?thesis
    by (simp only: merge_fields simp_thms)
qed

text \<open>
  C5. Applying the same partial update twice: when the update touches only overwrite
  channels the second application changes nothing; when it touches only messages, its
  entries are appended a second time, so for a non-empty list of entries the two results
  differ.
\<close>
theorem merge_twice:
  assumes "p_messages p = None"
    and "p_messages q = Some ms" and "p_research_query q = None"
    and "p_search_results q = None" and "p_analysis q = None" and "p_final_report q = None"
  shows "merge (merge s p) p = merge s p
    \<and> merge (merge s q) q = s\<lparr>messages := messages s @ ms @ ms\<rparr>
    \<and> merge s q = s\<lparr>messages := messages s @ ms\<rparr>
    \<and> (ms \<noteq> [] \<longrightarrow> merge (merge s q) q \<noteq> merge s q)"
proof -
  have a: "merge (merge s p) p = merge s p"
    using assms(1)
    by (simp add: merge_def last_value_def split: option.split)
       (cases "p_research_query p"; cases "p_search_results p"; cases "p_analysis p";
        cases "p_final_report p"; simp add: last_value_def)
  have b: "merge s q = s\<lparr>messages := messages s @ ms\<rparr>" for s
    using assms(2-6) by (simp add: merge_def reducer_of_Messages add_messages_def)
  have c: "merge (merge s q) q = s\<lparr>messages := messages s @ ms @ ms\<rparr>"
    by (simp add: b)
  have d: "ms \<noteq> [] \<longrightarrow> merge (merge s q) q \<noteq> merge s q"
  proof
    assume ne: "ms \<noteq> []"
    have "messages (merge (merge s q) q) \<noteq> messages (merge s q)"
      using ne by (simp add: b)
    then show "merge (merge s q) q \<noteq> merge s q" by auto
  qed
  from a b c d show ?thesis by blast
qed

theorem merge_twice_witness:
  "p_messages overwrite_update = None
   \<and> p_messages append_update = Some [AIMessage (lit ''a'')]
   \<and> merge (merge example_state overwrite_update) overwrite_update
     = merge example_state overwrite_update
   \<and> merge (merge example_state append_update) append_update
     = example_state\<lparr>messages := messages example_state @ [AIMessage (lit ''a'')] @ [AIMessage (lit ''a'')]\<rparr>
   \<and> merge (merge example_state append_update) append_update
     \<noteq> merge example_state append_update"
proof -
  have h1: "p_messages overwrite_update = None"
    by (simp add: overwrite_update_def)
  have h2: "p_messages append_update = Some [AIMessage (lit ''a'')]"
    and h3: "p_research_query append_update = None"
    and h4: "p_search_results append_update = None"
    and h5: "p_analysis append_update = None"
    and h6: "p_final_report append_update = None"
    by (simp_all add: append_update_def)
  have ne: "[AIMessage (lit ''a'')] \<noteq> []" by simp
  show ?thesis
    using h1 h2 ne merge_twice [OF h1 h2 h3 h4 h5 h6, of example_state] by blast
qed

lemma join_Cons: "join sep (x # xs) = x @ concat (map (\<lambda>y. sep @ y) xs)"
  by (induction xs arbitrary: x) simp_all

lemma summary_line_sliceable:
  assumes "(case content r of PStr c \<Rightarrow> True | PList xs \<Rightarrow> True | _ \<Rightarrow> False)"
  shows "summary_line self r = Inr ((\<lambda>r. [0x2022] @ lit '' ''
                    @ (case title r of PStr t \<Rightarrow> t | v \<Rightarrow> py_str self v) @ lit '': ''
                    @ (case content r of
                         PStr c \<Rightarrow> take 200 c
                       | PList xs \<Rightarrow> py_str self (PList (take 200 xs))
                       | v \<Rightarrow> [])
                    @ lit ''...'') r)"
  using assms
  by (cases "content r"; cases "title r") (simp_all add: summary_line_def bullet_def)

lemma summary_lines_sliceable:
  assumes "\<forall>r \<in> set rs. (case content r of PStr c \<Rightarrow> True | PList xs \<Rightarrow> True | _ \<Rightarrow> False)"
  shows "summary_lines self rs = Inr (map (\<lambda>r. [0x2022] @ lit '' ''
                    @ (case title r of PStr t \<Rightarrow> t | v \<Rightarrow> py_str self v) @ lit '': ''
                    @ (case content r of
                         PStr c \<Rightarrow> take 200 c
                       | PList xs \<Rightarrow> py_str self (PList (take 200 xs))
                       | v \<Rightarrow> [])
                    @ lit ''...'') rs)"
  using assms
proof (induction rs)
  case Nil
  show ?case by simp
next
  case (Cons a rs)
  have "summary_line self a = Inr ((\<lambda>r. [0x2022] @ lit '' ''
                    @ (case title r of PStr t \<Rightarrow> t | v \<Rightarrow> py_str self v) @ lit '': ''
                    @ (case content r of
                         PStr c \<Rightarrow> take 200 c
                       | PList xs \<Rightarrow> py_str self (PList (take 200 xs))
                       | v \<Rightarrow> [])
                    @ lit ''...'') a)"
    using Cons.prems by (intro summary_line_sliceable) simp
  moreover have "summary_lines self rs = Inr (map (\<lambda>r. [0x2022] @ lit '' ''
                    @ (case title r of PStr t \<Rightarrow> t | v \<Rightarrow> py_str self v) @ lit '': ''
                    @ (case content r of
                         PStr c \<Rightarrow> take 200 c
                       | PList xs \<Rightarrow> py_str self (PList (take 200 xs))
                       | v \<Rightarrow> [])
                    @ lit ''...'') rs)"
    using Cons by simp
  ultimately show ?case by simp
qed

text \<open>
  C7, as the code has it. When the content of each of the top three search results can be
  sliced (it is a str or a list), the report node calls the model exactly once, with a
  single human message whose text is the prompt formatted from the query, the summary of
  the top three search results (one line per result: bullet, title, the first 200 of the
  content) and the analysis. When the call returns, the update sets final_report to the
  content of the response, appends the response as one entry to messages and holds no
  other key.
\<close>
theorem report_generator_update:
  assumes "\<forall>r \<in> set (take 3 (search_results s)). (case content r of PStr c \<Rightarrow> True | PList xs \<Rightarrow> True | _ \<Rightarrow> False)"
  shows "\<exists>prompt.
      prompt =
        chat_prompt_format self report_template
          [(lit ''query'', research_query s),
           (lit ''search_summary'',
              (case map (\<lambda>r. [0x2022] @ lit '' ''
                    @ (case title r of PStr t \<Rightarrow> t | v \<Rightarrow> py_str self v) @ lit '': ''
                    @ (case content r of
                         PStr c \<Rightarrow> take 200 c
                       | PList xs \<Rightarrow> py_str self (PList (take 200 xs))
                       | v \<Rightarrow> [])
                    @ lit ''...'') (take 3 (search_results s)) of
                 [] \<Rightarrow> []
               | l # ls \<Rightarrow> l @ concat (map (\<lambda>y. 10 # y) ls))),
           (lit ''analysis'', json_dumps self (analysis s))]
    \<and> snd (report_generator self s) = [LlmInvoke [HumanMessage prompt]]
    \<and> (case llm self [HumanMessage prompt] of
          Inl e \<Rightarrow> fst (report_generator self s) = Inl e
        | Inr response \<Rightarrow>
            fst (report_generator self s) =
              Inr \<lparr>p_messages = Some [response], p_research_query = None,
                   p_search_results = None, p_analysis = None,
                   p_final_report = Some (msg_content response)\<rparr>
            \<and> merge s \<lparr>p_messages = Some [response], p_research_query = None,
                   p_search_results = None, p_analysis = None,
                   p_final_report = Some (msg_content response)\<rparr>
              = s\<lparr>messages := messages s @ [response], final_report := msg_content response\<rparr>)"
proof -
  have lines: "summary_lines self (take 3 (search_results s))
      = Inr (map (\<lambda>r. [0x2022] @ lit '' ''
                    @ (case title r of PStr t \<Rightarrow> t | v \<Rightarrow> py_str self v) @ lit '': ''
                    @ (case content r of
                         PStr c \<Rightarrow> take 200 c
                       | PList xs \<Rightarrow> py_str self (PList (take 200 xs))
                       | v \<Rightarrow> [])
                    @ lit ''...'') (take 3 (search_results s)))"
    using assms by (rule summary_lines_sliceable)
  have summary: "search_summary_of self (search_results s) =
      Inr (case map (\<lambda>r. [0x2022] @ lit '' ''
                    @ (case title r of PStr t \<Rightarrow> t | v \<Rightarrow> py_str self v) @ lit '': ''
                    @ (case content r of
                         PStr c \<Rightarrow> take 200 c
                       | PList xs \<Rightarrow> py_str self (PList (take 200 xs))
                       | v \<Rightarrow> [])
                    @ lit ''...'') (take 3 (search_results s)) of
                 [] \<Rightarrow> []
               | l # ls \<Rightarrow> l @ concat (map (\<lambda>y. 10 # y) ls))"
    unfolding search_summary_of_def lines
    by (cases "map (\<lambda>r. [0x2022] @ lit '' ''
                    @ (case title r of PStr t \<Rightarrow> t | v \<Rightarrow> py_str self v) @ lit '': ''
                    @ (case content r of
                         PStr c \<Rightarrow> take 200 c
                       | PList xs \<Rightarrow> py_str self (PList (take 200 xs))
                       | v \<Rightarrow> [])
                    @ lit ''...'') (take 3 (search_results s))") (simp_all add: join_Cons nl_def)
  show ?thesis
    by (simp add: report_generator_def formatted_prompt_def summary Let_def merge_def
        reducer_of_Messages add_messages_def last_value_def split: sum.split)
qed

theorem report_generator_update_witness:
  "search_results example_state =
       [\<lparr>title = PStr (lit ''T0''), content = PStr (lit ''C0''), url = PStr (lit ''U0'')\<rparr>]
   \<and> snd (report_generator example_env example_state) =
       [LlmInvoke [HumanMessage (report_template @ lit ''q''
          @ ([0x2022] @ lit '' '' @ lit ''T0'' @ lit '': '' @ lit ''C0'' @ lit ''...'')
          @ lit ''{}'')]]
   \<and> fst (report_generator example_env example_state) =
       Inr \<lparr>p_messages = Some [AIMessage (lit ''REPORT_X'')], p_research_query = None,
            p_search_results = None, p_analysis = None,
            p_final_report = Some (lit ''REPORT_X'')\<rparr>"
proof -
  have h: "\<forall>r \<in> set (take 3 (search_results example_state)).
      (case content r of PStr c \<Rightarrow> True | PList xs \<Rightarrow> True | _ \<Rightarrow> False)"
    by (simp add: example_state_def)
  have c200: "take 200 (lit ''C0'') = lit ''C0''"
    by (simp add: lit_def)
  show ?thesis
    using h report_generator_update [OF h, of example_env]
    by (simp add: example_env_def example_state_def c200)
qed

text \<open>
  The statement of C7 as written fails: when the content of a search result cannot be
  sliced, the report node raises while it builds the prompt and the model is not called.
\<close>
theorem report_generator_counterexample:
  "snd (report_generator example_env unsliceable_state) = []
   \<and> fst (report_generator example_env unsliceable_state)
       = Inl (lit ''object is not subscriptable'')"
  by (simp add: report_generator_def formatted_prompt_def search_summary_of_def
      summary_line_def unsliceable_state_def example_state_def example_env_def Let_def)

text \<open>
  C9. The planner's update holds no search_results, analysis or final_report key: after it
  is merged these three channels are what they were, and the update has exactly one
  messages entry, the model's plan.
\<close>
theorem planner_frame:
  assumes "fst (research_planner self s) = Inr p"
  shows "p_search_results p = None \<and> p_analysis p = None \<and> p_final_report p = None
    \<and> search_results (merge s p) = search_results s
    \<and> analysis (merge s p) = analysis s
    \<and> final_report (merge s p) = final_report s
    \<and> (\<exists>plan. llm self ([SystemMessage planner_system_prompt] @ messages s) = Inr plan
          \<and> p_messages p = Some [plan]
          \<and> messages (merge s p) = messages s @ [plan])"
  using assms
  by (auto simp add: research_planner_def Let_def merge_fields split: sum.splits)

theorem planner_frame_witness:
  "fst (research_planner example_env example_state)
     = Inr \<lparr>p_messages = Some [AIMessage (lit ''REPORT_X'')], p_research_query = Some (lit ''q''),
            p_search_results = None, p_analysis = None, p_final_report = None\<rparr>
   \<and> search_results (merge example_state
         \<lparr>p_messages = Some [AIMessage (lit ''REPORT_X'')], p_research_query = Some (lit ''q''),
            p_search_results = None, p_analysis = None, p_final_report = None\<rparr>)
       = [\<lparr>title = PStr (lit ''T0''), content = PStr (lit ''C0''), url = PStr (lit ''U0'')\<rparr>]
   \<and> final_report (merge example_state
         \<lparr>p_messages = Some [AIMessage (lit ''REPORT_X'')], p_research_query = Some (lit ''q''),
            p_search_results = None, p_analysis = None, p_final_report = None\<rparr>)
       = (lit ''old'')"
proof -
  have h: "fst (research_planner example_env example_state)
     = Inr \<lparr>p_messages = Some [AIMessage (lit ''REPORT_X'')], p_research_query = Some (lit ''q''),
            p_search_results = None, p_analysis = None, p_final_report = None\<rparr>"
    by (simp add: research_planner_def example_env_def example_state_def
        first_human_content_def)
  show ?thesis
    using h planner_frame [OF h] by (simp add: example_state_def)
qed

text \<open>
  C10, as the code has it. After a search that returned, search_results is the list of
  title/content/url records of the dictionaries among the raw results, in the order
  returned. Each of the three fields holds the raw value of its key unchanged, a str
  whenever the raw value is a str, and the empty str when the key is missing. Raw elements
  that are not dictionaries are dropped.
\<close>
theorem web_searcher_results:
  assumes "search_tool self (research_query s) = Inr raw"
  shows "\<exists>p. fst (web_searcher self s) = Inr p
    \<and> p_search_results p =
        Some (map (\<lambda>d. \<lparr>title = (case d (lit ''title'') of None \<Rightarrow> PStr [] | Some v \<Rightarrow> v),
                        content = (case d (lit ''content'') of None \<Rightarrow> PStr [] | Some v \<Rightarrow> v),
                        url = (case d (lit ''url'') of None \<Rightarrow> PStr [] | Some v \<Rightarrow> v)\<rparr>)
               (concat (map (\<lambda>r. case r of RawDict d \<Rightarrow> [d] | RawNonDict \<Rightarrow> []) raw)))"
proof -
  have "format_loop [] raw =
      map (\<lambda>d. \<lparr>title = (case d (lit ''title'') of None \<Rightarrow> PStr [] | Some v \<Rightarrow> v),
                        content = (case d (lit ''content'') of None \<Rightarrow> PStr [] | Some v \<Rightarrow> v),
                        url = (case d (lit ''url'') of None \<Rightarrow> PStr [] | Some v \<Rightarrow> v)\<rparr>)
               (concat (map (\<lambda>r. case r of RawDict d \<Rightarrow> [d] | RawNonDict \<Rightarrow> []) raw))"
  proof (induction raw)
    case Nil
    show ?case by simp
  next
    case (Cons r rs)
    show ?case
    proof (cases r)
      case (RawDict d)
      show ?thesis
        using Cons.IH format_loop_acc [of "[\<lparr>title = dict_get d (lit ''title'') (PStr []),
                 content = dict_get d (lit ''content'') (PStr []), url = dict_get d (lit ''url'') (PStr [])\<rparr>]" rs]
        by (simp add: RawDict dict_get_def)
    next
      case RawNonDict
      show ?thesis using Cons.IH by (simp add: RawNonDict)
    qed
  qed
  then show ?thesis
    using assms by (simp add: web_searcher_def Let_def)
qed

theorem web_searcher_results_witness:
  "search_tool example_env (research_query example_state) = Inr example_raw
   \<and> (\<exists>p. fst (web_searcher example_env example_state) = Inr p
        \<and> p_search_results p =
            Some [\<lparr>title = PStr (lit ''T1''), content = PStr (lit ''C1''), url = PStr (lit ''U1'')\<rparr>,
                  \<lparr>title = PStr [], content = PStr (lit ''C2''), url = PStr []\<rparr>])"
proof -
  have h: "search_tool example_env (research_query example_state) = Inr example_raw"
    by (simp add: example_env_def)
  show ?thesis
    using h web_searcher_results [OF h] by (simp add: example_raw_def lit_def)
qed

text \<open>
  The statement of C10 as written fails: a raw value that is not a str is copied as it is,
  so the fields of a result need not be strings.
\<close>
theorem web_searcher_results_counterexample:
  "map_sum id p_search_results (fst (web_searcher untyped_env example_state))
     = Inr (Some [\<lparr>title = PNone, content = PInt 5, url = PStr []\<rparr>])"
  by (simp add: web_searcher_def untyped_env_def example_env_def untyped_raw_def
      dict_get_def lit_def Let_def)

subsection \<open>Runs of the workflow\<close>

lemma walk_other_thread:
  "tid1 \<noteq> tid \<Longrightarrow> store (walk k g tid n r) tid1 = store r tid1"
proof (induction k arbitrary: n r)
  case 0
  show ?case by simp
next
  case (Suc k)
  show ?case
    using Suc.prems
    by (simp add: Suc.IH put_checkpoint_def Let_def
        split: option.split node.split sum.split prod.split)
qed

lemma walk_store_irrelevant:
  "outcome (walk k g tid n (r\<lparr>store := st'\<rparr>)) = outcome (walk k g tid n r)
   \<and> committed (walk k g tid n (r\<lparr>store := st'\<rparr>)) = committed (walk k g tid n r)
   \<and> invoked (walk k g tid n (r\<lparr>store := st'\<rparr>)) = invoked (walk k g tid n r)
   \<and> calls (walk k g tid n (r\<lparr>store := st'\<rparr>)) = calls (walk k g tid n r)"
proof (induction k arbitrary: n r st')
  case 0
  show ?case by simp
next
  case (Suc k)
  have step: "\<And>name s' cs.
      \<lparr>outcome = Inr s', committed = s',
        store = put_checkpoint st' tid s' (Suc (length (invoked r))),
        invoked = invoked r @ [name], calls = calls r @ cs\<rparr>
      = \<lparr>outcome = Inr s', committed = s',
        store = put_checkpoint (store r) tid s' (Suc (length (invoked r))),
        invoked = invoked r @ [name], calls = calls r @ cs\<rparr>
          \<lparr>store := put_checkpoint st' tid s' (Suc (length (invoked r)))\<rparr>"
    by simp
  show ?case
    by (simp add: Let_def step Suc.IH del: run.update_convs
        split: option.split node.split sum.split prod.split)
qed

lemma run_cases:
  obtains (plan_raises) e c1 where "research_planner self s0 = (Inl e, c1)"
      and "invoke (create_workflow self) st s0 tid =
        \<lparr>outcome = Inl e, committed = s0, store = st, invoked = [(lit ''planner'')], calls = c1\<rparr>"
  | (report_raises) p1 c1 p2 c2 p3 c3 e c4 where
      "research_planner self s0 = (Inr p1, c1)"
      and "web_searcher self (merge s0 p1) = (Inr p2, c2)"
      and "content_analyzer self (merge (merge s0 p1) p2) = (Inr p3, c3)"
      and "report_generator self (merge (merge (merge s0 p1) p2) p3) = (Inl e, c4)"
      and "invoke (create_workflow self) st s0 tid =
          \<lparr>outcome = Inl e,
            committed = merge (merge (merge s0 p1) p2) p3,
            store = st(tid \<mapsto>
              \<lparr>cp_state = merge (merge (merge s0 p1) p2) p3, cp_step_index = 3\<rparr>),
            invoked = workflow_order,
            calls = c1 @ c2 @ c3 @ c4\<rparr>"
  | (completes) p1 c1 p2 c2 p3 c3 p4 c4 where
      "research_planner self s0 = (Inr p1, c1)"
      and "web_searcher self (merge s0 p1) = (Inr p2, c2)"
      and "content_analyzer self (merge (merge s0 p1) p2) = (Inr p3, c3)"
      and "report_generator self (merge (merge (merge s0 p1) p2) p3) = (Inr p4, c4)"
      and "invoke (create_workflow self) st s0 tid =
          \<lparr>outcome = Inr (merge (merge (merge (merge s0 p1) p2) p3) p4),
            committed = merge (merge (merge (merge s0 p1) p2) p3) p4,
            store = st(tid \<mapsto>
              \<lparr>cp_state = merge (merge (merge (merge s0 p1) p2) p3) p4, cp_step_index = 4\<rparr>),
            invoked = workflow_order,
            calls = c1 @ c2 @ c3 @ c4\<rparr>"
proof -
  obtain x1 c1 where h1: "research_planner self s0 = (x1, c1)"
    by (cases "research_planner self s0")
  show thesis
  proof (cases x1)
    case (Inl e)
    with h1 have "research_planner self s0 = (Inl e, c1)" by simp
    then show thesis using run_planner_raises plan_raises by blast
  next
    case (Inr p1)
    with h1 have h1': "research_planner self s0 = (Inr p1, c1)" by simp
    obtain p2 where h2:
      "web_searcher self (merge s0 p1) = (Inr p2, [SearchInvoke (research_query (merge s0 p1))])"
      using web_searcher_total by blast
    obtain p3 where h3: "content_analyzer self (merge (merge s0 p1) p2) = (Inr p3, [])"
      using content_analyzer_total by blast
    obtain x4 c4 where h4:
      "report_generator self (merge (merge (merge s0 p1) p2) p3) = (x4, c4)"
      by (cases "report_generator self (merge (merge (merge s0 p1) p2) p3)")
    note run = run_four_steps [OF h1' h2 h3 h4, of st tid]
    show thesis
    proof (cases x4)
      case (Inl e)
      show thesis
        using report_raises [OF h1' h2 h3 h4 [unfolded Inl]] run by (simp add: Inl)
    next
      case (Inr p4)
      show thesis
        using completes [OF h1' h2 h3 h4 [unfolded Inr]] run by (simp add: Inr)
    qed
  qed
qed




text \<open>
  C3, as the code has it. When the search tool raises, the searcher returns empty
  search_results and one message describing the failure; the analyzer, given no results,
  returns the empty analysis and a message; the run goes on to the reporter and
  \<open>research\<close> returns the final state, not an error. Its report is the model's answer, as
  it is, to the prompt built from an empty search summary and the empty analysis; the code
  adds no notice of the missing search data. The model is assumed to answer the planner and
  the reporter.
\<close>
theorem search_failure_absorbed:
  assumes search: "search_tool self query = Inl e"
    and plan: "llm self [SystemMessage planner_system_prompt, HumanMessage query] = Inr plan"
    and report: "llm self [HumanMessage (chat_prompt_format self report_template
        [(lit ''query'', query), (lit ''search_summary'', []),
         (lit ''analysis'', json_dumps self EmptyAnalysis)])] = Inr report"
  shows "web_searcher self (s\<lparr>research_query := query\<rparr>) =
       (Inr \<lparr>p_messages = Some [AIMessage (lit ''Search error: '' @ e)], p_research_query = None,
             p_search_results = Some [], p_analysis = None, p_final_report = None\<rparr>,
        [SearchInvoke query])
    \<and> content_analyzer self (s\<lparr>search_results := []\<rparr>) =
       (Inr \<lparr>p_messages = Some [AIMessage (lit ''No search results to analyze.'')],
             p_research_query = None, p_search_results = None,
             p_analysis = Some EmptyAnalysis, p_final_report = None\<rparr>, [])
    \<and> fst (research self st query) =
       FinalState
         \<lparr>messages = [HumanMessage query, plan, AIMessage (lit ''Search error: '' @ e),
                       AIMessage (lit ''No search results to analyze.''), report],
          research_query = query,
          search_results = [],
          analysis = EmptyAnalysis,
          final_report = msg_content report\<rparr>
    \<and> invoked (research_run self st query) = workflow_order"
proof -
  let ?s0 = "initial_state_of query"
  let ?p1 = "\<lparr>p_messages = Some [plan], p_research_query = Some query,
       p_search_results = None, p_analysis = None, p_final_report = None\<rparr>"
  let ?p2 = "\<lparr>p_messages = Some [AIMessage (lit ''Search error: '' @ e)], p_research_query = None,
             p_search_results = Some [], p_analysis = None, p_final_report = None\<rparr>"
  let ?p3 = "\<lparr>p_messages = Some [AIMessage (lit ''No search results to analyze.'')],
             p_research_query = None, p_search_results = None,
             p_analysis = Some EmptyAnalysis, p_final_report = None\<rparr>"
  let ?p4 = "\<lparr>p_messages = Some [report], p_research_query = None,
             p_search_results = None, p_analysis = None,
             p_final_report = Some (msg_content report)\<rparr>"
  have ws: "web_searcher self t = (Inr ?p2, [SearchInvoke query])" if "research_query t = query" for t
    using search that by (simp add: web_searcher_def Let_def)
  have ca: "content_analyzer self t = (Inr ?p3, [])" if "search_results t = []" for t
    using that by (simp add: content_analyzer_def Let_def)
  have h1: "research_planner self ?s0 = (Inr ?p1,
       [LlmInvoke [SystemMessage planner_system_prompt, HumanMessage query]])"
    using plan by (simp add: research_planner_def initial_state_of_def first_human_content_def)
  have q1: "research_query (merge ?s0 ?p1) = query"
    by (simp add: merge_fields)
  have h2: "web_searcher self (merge ?s0 ?p1) = (Inr ?p2, [SearchInvoke query])"
    using ws q1 by blast
  have h3: "content_analyzer self (merge (merge ?s0 ?p1) ?p2) = (Inr ?p3, [])"
    by (rule ca) (simp add: merge_fields)
  have s3: "merge (merge (merge ?s0 ?p1) ?p2) ?p3 =
      \<lparr>messages = [HumanMessage query, plan, AIMessage (lit ''Search error: '' @ e),
                       AIMessage (lit ''No search results to analyze.'')],
          research_query = query, search_results = [], analysis = EmptyAnalysis,
          final_report = []\<rparr>"
    by (simp add: merge_def initial_state_of_def reducer_of_Messages add_messages_def
        last_value_def)
  have h4: "report_generator self (merge (merge (merge ?s0 ?p1) ?p2) ?p3) =
      (Inr ?p4, [LlmInvoke [HumanMessage (chat_prompt_format self report_template
        [(lit ''query'', query), (lit ''search_summary'', []),
         (lit ''analysis'', json_dumps self EmptyAnalysis)])]])"
    unfolding s3 using report
    by (simp add: report_generator_def formatted_prompt_def search_summary_of_def Let_def)
  note run = run_four_steps [OF h1 h2 h3 h4, of st "thread_id_of self"]
  have r1: "fst (research self st query) =
       FinalState (merge (merge (merge (merge ?s0 ?p1) ?p2) ?p3) ?p4)"
    by (simp add: research_def research_run_def run Let_def)
  have r2: "invoked (research_run self st query) = workflow_order"
    by (simp add: research_run_def run)
  have s4: "merge (merge (merge (merge ?s0 ?p1) ?p2) ?p3) ?p4 =
         \<lparr>messages = [HumanMessage query, plan, AIMessage (lit ''Search error: '' @ e),
                       AIMessage (lit ''No search results to analyze.''), report],
          research_query = query, search_results = [], analysis = EmptyAnalysis,
          final_report = msg_content report\<rparr>"
    unfolding s3 by (simp add: merge_def reducer_of_Messages add_messages_def last_value_def)
  show ?thesis
    using ws [of "s\<lparr>research_query := query\<rparr>"] ca [of "s\<lparr>search_results := []\<rparr>"] r1 r2 s4
    by simp
qed

theorem search_failure_absorbed_witness:
  "search_tool search_down_env (lit ''q'') = Inl (lit ''timeout'')
   \<and> fst (research search_down_env empty_store (lit ''q'')) =
       FinalState
         \<lparr>messages = [HumanMessage (lit ''q''), AIMessage (lit ''REPORT_X''),
                       AIMessage (lit ''Search error: timeout''),
                       AIMessage (lit ''No search results to analyze.''), AIMessage (lit ''REPORT_X'')],
          research_query = (lit ''q''),
          search_results = [],
          analysis = EmptyAnalysis,
          final_report = (lit ''REPORT_X'')\<rparr>"
proof -
  have h1: "search_tool search_down_env (lit ''q'') = Inl (lit ''timeout'')"
    by (simp add: search_down_env_def)
  have h2: "llm search_down_env [SystemMessage planner_system_prompt, HumanMessage (lit ''q'')]
      = Inr (AIMessage (lit ''REPORT_X''))"
    by (simp add: search_down_env_def example_env_def)
  have h3: "llm search_down_env [HumanMessage (chat_prompt_format search_down_env report_template
        [(lit ''query'', (lit ''q'')), (lit ''search_summary'', []),
         (lit ''analysis'', json_dumps search_down_env EmptyAnalysis)])] = Inr (AIMessage (lit ''REPORT_X''))"
    by (simp add: search_down_env_def example_env_def)
  show ?thesis
    using h1 search_failure_absorbed [OF h1 h2 h3, of example_state empty_store]
    by (simp add: lit_def)
qed

lemma search_down_run:
  "result_search_results (fst (research search_down_env empty_store (lit ''q''))) = Some []"
  "result_final_report (fst (research search_down_env empty_store (lit ''q'')))
     = Some (lit ''REPORT_X'')"
  by (simp_all add: research_def research_run_def invoke_def length_edges_workflow
      successor_workflow nodes_workflow research_planner_def web_searcher_def
      content_analyzer_def report_generator_def formatted_prompt_def search_down_env_def
      example_env_def initial_state_of_def first_human_content_def merge_def
      reducer_of_Messages add_messages_def last_value_def search_summary_of_def Let_def)

lemma example_run:
  "result_search_results (fst (research example_env empty_store (lit ''q''))) =
     Some [\<lparr>title = PStr (lit ''T1''), content = PStr (lit ''C1''), url = PStr (lit ''U1'')\<rparr>,
           \<lparr>title = PStr [], content = PStr (lit ''C2''), url = PStr []\<rparr>]"
  "result_final_report (fst (research example_env empty_store (lit ''q'')))
     = Some (lit ''REPORT_X'')"
  by (simp_all add: research_def research_run_def invoke_def length_edges_workflow
      successor_workflow nodes_workflow research_planner_def web_searcher_def
      content_analyzer_def report_generator_def formatted_prompt_def example_env_def
      example_raw_def initial_state_of_def first_human_content_def merge_def
      reducer_of_Messages add_messages_def last_value_def dict_get_def
      search_summary_of_def summary_line_def lit_eq_iff Let_def)

text \<open>
  The statement of C3 as written fails: the report of a run whose search raised is the
  model's answer and nothing else, and a model that answers the same whatever it is asked
  gives the same report with and without search data.
\<close>
theorem search_failure_report_counterexample:
  "result_search_results (fst (research search_down_env empty_store (lit ''q''))) = Some []
   \<and> result_search_results (fst (research example_env empty_store (lit ''q''))) =
       Some [\<lparr>title = PStr (lit ''T1''), content = PStr (lit ''C1''), url = PStr (lit ''U1'')\<rparr>,
             \<lparr>title = PStr [], content = PStr (lit ''C2''), url = PStr []\<rparr>]
   \<and> result_final_report (fst (research search_down_env empty_store (lit ''q'')))
       = Some (lit ''REPORT_X'')
   \<and> result_final_report (fst (research search_down_env empty_store (lit ''q'')))
       = result_final_report (fst (research example_env empty_store (lit ''q'')))"
  by (simp add: search_down_run example_run)

text \<open>
  C8. Runs under distinct thread ids have independent checkpoints: what is read under one
  thread id is the same whether or not a run wrote under another, and the result of a run
  does not depend on what the store holds from other runs.
\<close>
theorem checkpoints_independent:
  assumes "tid1 \<noteq> tid2"
  shows "get_checkpoint (put_checkpoint st tid2 s i) tid1 = get_checkpoint st tid1
    \<and> get_checkpoint (store (invoke g st s0 tid2)) tid1 = get_checkpoint st tid1
    \<and> (thread_id_of self = tid2 \<longrightarrow>
         get_checkpoint (snd (research self st query)) tid1 = get_checkpoint st tid1)
    \<and> outcome (invoke g st s0 tid2) = outcome (invoke g st' s0 tid2)
    \<and> fst (research self st query) = fst (research self st' query)"
proof -
  have a: "get_checkpoint (put_checkpoint st tid2 s i) tid1 = get_checkpoint st tid1"
    using assms by (simp add: get_checkpoint_def put_checkpoint_def)
  have b: "get_checkpoint (store (invoke g st s0 t)) tid1 = get_checkpoint st tid1"
    if "tid1 \<noteq> t" for g s0 t
    using that by (simp add: get_checkpoint_def invoke_def walk_other_thread)
  have c: "outcome (invoke g st s0 t) = outcome (invoke g st' s0 t)" for g s0 t
    using walk_store_irrelevant
      [where k = "length (edges g)" and g = g and tid = t and n = START
         and r = "\<lparr>outcome = Inr s0, committed = s0, store = st', invoked = [], calls = []\<rparr>"
         and st' = st]
    by (simp add: invoke_def)
  have d: "fst (research self st query) = fst (research self st' query)"
    using c [of "create_workflow self" "initial_state_of query" "thread_id_of self"]
    by (simp add: research_def research_run_def Let_def)
  have e: "thread_id_of self = tid2 \<longrightarrow>
         get_checkpoint (snd (research self st query)) tid1 = get_checkpoint st tid1"
    using assms b [of "thread_id_of self" "create_workflow self" "initial_state_of query"]
    by (auto simp add: research_def research_run_def Let_def)
  from a b [OF assms] c d e show ?thesis by blast
qed

theorem checkpoints_independent_witness:
  "thread_id_of example_env \<noteq> thread_id_of report_down_env
   \<and> get_checkpoint
        (snd (research report_down_env (snd (research example_env empty_store (lit ''q''))) (lit ''q2'')))
        (thread_id_of example_env)
     = get_checkpoint (snd (research example_env empty_store (lit ''q''))) (thread_id_of example_env)
   \<and> fst (research report_down_env (snd (research example_env empty_store (lit ''q''))) (lit ''q2''))
     = fst (research report_down_env empty_store (lit ''q2''))"
proof -
  have h: "thread_id_of example_env \<noteq> thread_id_of report_down_env"
    by (simp add: thread_id_of_def example_env_def report_down_env_def lit_def)
  show ?thesis
    using h checkpoints_independent [OF h,
        of "snd (research example_env empty_store (lit ''q''))" _ _ _ _ report_down_env "(lit ''q2'')"
           empty_store]
    by blast
qed

subsection \<open>Runs that halt\<close>

lemma report_down_run:
  "outcome (research_run report_down_env empty_store (lit ''q'')) = Inl (lit ''invalid api key'')"
  "invoked (research_run report_down_env empty_store (lit ''q'')) = workflow_order"
  "search_results (committed (research_run report_down_env empty_store (lit ''q''))) =
     [\<lparr>title = PStr (lit ''T1''), content = PStr (lit ''C1''), url = PStr (lit ''U1'')\<rparr>,
      \<lparr>title = PStr [], content = PStr (lit ''C2''), url = PStr []\<rparr>]"
  "map_option (\<lambda>c. search_results (cp_state c))
     (get_checkpoint (store (research_run report_down_env empty_store (lit ''q'')))
        (thread_id_of report_down_env)) =
     Some [\<lparr>title = PStr (lit ''T1''), content = PStr (lit ''C1''), url = PStr (lit ''U1'')\<rparr>,
           \<lparr>title = PStr [], content = PStr (lit ''C2''), url = PStr []\<rparr>]"
  by (simp_all add: research_run_def invoke_def length_edges_workflow successor_workflow
      nodes_workflow research_planner_def web_searcher_def content_analyzer_def
      report_generator_def formatted_prompt_def report_down_env_def example_env_def
      example_raw_def initial_state_of_def first_human_content_def merge_def
      reducer_of_Messages add_messages_def last_value_def dict_get_def
      search_summary_of_def summary_line_def lit_eq_iff
      workflow_order_def put_checkpoint_def get_checkpoint_def Let_def)

text \<open>
  C1, as the code has it. When a node raises, the walk halts at that node and \<open>research\<close>
  returns the error dictionary: the error text, one message and an error notice in
  final_report. The dictionary holds no search_results and no analysis. Either the planner
  raised on the initial state and nothing was committed, or the reporter raised on the
  state committed after the analyzer, and that state is the checkpoint of the run's thread.
\<close>
theorem research_error_result:
  assumes "outcome (research_run self st query) = Inl e"
  shows "fst (research self st query) =
       ErrorDict e [AIMessage (lit ''Research failed: '' @ e)]
         (lit ''Error occurred during research: '' @ e)
    \<and> snd (research self st query) = store (research_run self st query)
    \<and> result_error (fst (research self st query)) = Some e
    \<and> result_search_results (fst (research self st query)) = None
    \<and> result_analysis (fst (research self st query)) = None
    \<and> ((invoked (research_run self st query) = [(lit ''planner'')]
         \<and> fst (research_planner self (initial_state_of query)) = Inl e
         \<and> committed (research_run self st query) = initial_state_of query
         \<and> store (research_run self st query) = st)
       \<or> (invoked (research_run self st query) = workflow_order
         \<and> fst (report_generator self (committed (research_run self st query))) = Inl e
         \<and> get_checkpoint (store (research_run self st query)) (thread_id_of self)
             = Some \<lparr>cp_state = committed (research_run self st query), cp_step_index = 3\<rparr>
         \<and> (\<exists>p1 p2 p3.
               fst (research_planner self (initial_state_of query)) = Inr p1
             \<and> fst (web_searcher self (merge (initial_state_of query) p1)) = Inr p2
             \<and> fst (content_analyzer self (merge (merge (initial_state_of query) p1) p2))
                 = Inr p3
             \<and> committed (research_run self st query)
                 = merge (merge (merge (initial_state_of query) p1) p2) p3)))"
proof -
  have res: "fst (research self st query) =
       ErrorDict e [AIMessage (lit ''Research failed: '' @ e)]
         (lit ''Error occurred during research: '' @ e)
    \<and> snd (research self st query) = store (research_run self st query)"
    using assms by (simp add: research_def Let_def)
  then have keys: "result_error (fst (research self st query)) = Some e
    \<and> result_search_results (fst (research self st query)) = None
    \<and> result_analysis (fst (research self st query)) = None"
    by simp
  have halt: "(invoked (research_run self st query) = [(lit ''planner'')]
         \<and> fst (research_planner self (initial_state_of query)) = Inl e
         \<and> committed (research_run self st query) = initial_state_of query
         \<and> store (research_run self st query) = st)
       \<or> (invoked (research_run self st query) = workflow_order
         \<and> fst (report_generator self (committed (research_run self st query))) = Inl e
         \<and> get_checkpoint (store (research_run self st query)) (thread_id_of self)
             = Some \<lparr>cp_state = committed (research_run self st query), cp_step_index = 3\<rparr>
         \<and> (\<exists>p1 p2 p3.
               fst (research_planner self (initial_state_of query)) = Inr p1
             \<and> fst (web_searcher self (merge (initial_state_of query) p1)) = Inr p2
             \<and> fst (content_analyzer self (merge (merge (initial_state_of query) p1) p2))
                 = Inr p3
             \<and> committed (research_run self st query)
                 = merge (merge (merge (initial_state_of query) p1) p2) p3))"
  proof (cases rule: run_cases [of self "initial_state_of query" st "thread_id_of self"])
    case (plan_raises e' c1)
    then show ?thesis
      using assms by (simp add: research_run_def)
  next
    case (report_raises p1 c1 p2 c2 p3 c3 e' c4)
    have "e' = e"
      using assms report_raises(5) by (simp add: research_run_def)
    have "\<exists>q1 q2 q3.
               fst (research_planner self (initial_state_of query)) = Inr q1
             \<and> fst (web_searcher self (merge (initial_state_of query) q1)) = Inr q2
             \<and> fst (content_analyzer self (merge (merge (initial_state_of query) q1) q2))
                 = Inr q3
             \<and> committed (research_run self st query)
                 = merge (merge (merge (initial_state_of query) q1) q2) q3"
      apply (rule exI [of _ p1])
      apply (rule exI [of _ p2])
      apply (rule exI [of _ p3])
      using report_raises by (simp add: research_run_def)
    then show ?thesis
      using report_raises \<open>e' = e\<close>
      by (simp add: research_run_def get_checkpoint_def)
  next
    case (completes p1 c1 p2 c2 p3 c3 p4 c4)
    then show ?thesis
      using assms by (simp add: research_run_def)
  qed
  from res keys halt show ?thesis by blast
qed

theorem research_error_result_witness:
  "outcome (research_run report_down_env empty_store (lit ''q'')) = Inl (lit ''invalid api key'')
   \<and> fst (research report_down_env empty_store (lit ''q'')) =
       ErrorDict (lit ''invalid api key'') [AIMessage (lit ''Research failed: invalid api key'')]
         (lit ''Error occurred during research: invalid api key'')
   \<and> result_search_results (fst (research report_down_env empty_store (lit ''q''))) = None"
proof -
  have h: "outcome (research_run report_down_env empty_store (lit ''q'')) = Inl (lit ''invalid api key'')"
    by (rule report_down_run(1))
  have "fst (research report_down_env empty_store (lit ''q'')) =
       ErrorDict (lit ''invalid api key'') [AIMessage (lit ''Research failed: '' @ (lit ''invalid api key''))]
         (lit ''Error occurred during research: '' @ (lit ''invalid api key''))
     \<and> result_search_results (fst (research report_down_env empty_store (lit ''q''))) = None"
    using research_error_result [OF h] by blast
  then show ?thesis using h by (simp add: lit_append)
qed

text \<open>
  The statement of C1 as written fails: when the model raises in the reporter, the result
  of \<open>research\<close> does not hold the search results and the analysis that were committed after
  the analyzer.
\<close>
theorem research_error_counterexample:
  "outcome (research_run report_down_env empty_store (lit ''q'')) = Inl (lit ''invalid api key'')
   \<and> invoked (research_run report_down_env empty_store (lit ''q'')) = workflow_order
   \<and> result_error (fst (research report_down_env empty_store (lit ''q''))) = Some (lit ''invalid api key'')
   \<and> search_results (committed (research_run report_down_env empty_store (lit ''q''))) =
       [\<lparr>title = PStr (lit ''T1''), content = PStr (lit ''C1''), url = PStr (lit ''U1'')\<rparr>,
        \<lparr>title = PStr [], content = PStr (lit ''C2''), url = PStr []\<rparr>]
   \<and> result_search_results (fst (research report_down_env empty_store (lit ''q'')))
       \<noteq> Some (search_results (committed (research_run report_down_env empty_store (lit ''q''))))
   \<and> result_analysis (fst (research report_down_env empty_store (lit ''q'')))
       \<noteq> Some (analysis (committed (research_run report_down_env empty_store (lit ''q''))))
   \<and> result_final_report (fst (research report_down_env empty_store (lit ''q'')))
       = Some (lit ''Error occurred during research: invalid api key'')"
  by (simp add: research_def Let_def report_down_run lit_append)

end
